theory Spec2Isabelle
  imports Main "HOL-Library.Word"
begin

section \<open>The zkLove contract: data model\<close>

text \<open>
  The contract is Solidity 0.8.19. An \<open>address\<close> is a 160-bit word, \<open>bytes32\<close> and
  \<open>uint256\<close> are 256-bit words. Arithmetic on \<open>uint256\<close> is checked: an overflowing
  \<open>+=\<close> or \<open>++\<close> aborts the call with a panic. A Solidity \<open>mapping\<close> is a total function whose
  value at an unwritten key is the all-zero struct. A call that fails reverts: the storage
  stays as it was before the call.
\<close>

type_synonym address = "160 word"
type_synonym bytes32 = "256 word"
type_synonym uint256 = "256 word"

datatype error =
    Revert string   \<comment> \<open>a failed \<open>require\<close>, with its message\<close>
  | Panic           \<comment> \<open>checked arithmetic overflowed or underflowed\<close>

datatype event =
    UserRegistered address bytes32 uint256
  | MatchProofSubmitted address bytes32 uint256
  | MutualMatchFound address address uint256
  | IdentityRevealed address address uint256
  | AuraPointsAwarded address uint256 string
  | AuraPointsDeducted address uint256 string

record UserProfile =
  biometricCommitment :: bytes32
  preferencesHash :: bytes32
  auraPoints :: uint256
  registrationTimestamp :: uint256
  lastActiveTimestamp :: uint256
  isActive :: bool
  isVerified :: bool
  totalMatches :: uint256
  totalReveals :: uint256

text \<open>
  The field \<open>isActive\<close> of a matching session is written \<open>sessionIsActive\<close>, and the
  contract-wide counters \<open>totalMatches\<close> and \<open>totalReveals\<close> are written
  \<open>globalTotalMatches\<close> and \<open>globalTotalReveals\<close>, since the profile has fields of the
  same names.
\<close>

record MatchingSession =
  user :: address
  matchingHash :: bytes32
  auraThreshold :: uint256
  timestamp :: uint256
  sessionIsActive :: bool

record MutualMatch =
  user1 :: address
  user2 :: address
  compatibilityScore :: uint256
  matchTimestamp :: uint256
  user1Revealed :: bool
  user2Revealed :: bool
  revealTimestamp :: uint256

record ZKProof =
  pi_a :: "uint256 \<times> uint256"
  pi_b :: "(uint256 \<times> uint256) \<times> (uint256 \<times> uint256)"
  pi_c :: "uint256 \<times> uint256"
  publicSignals :: "uint256 list"

record zkLove =
  userProfiles :: "address \<Rightarrow> UserProfile"
  matchingSessions :: "bytes32 \<Rightarrow> MatchingSession"
  mutualMatches :: "bytes32 \<Rightarrow> MutualMatch"
  hasRevealed :: "address \<Rightarrow> address \<Rightarrow> bool"
  owner :: address
  totalUsers :: uint256
  globalTotalMatches :: uint256
  globalTotalReveals :: uint256
  contractPaused :: bool
  events :: "event list"   \<comment> \<open>the log of emitted events, oldest first\<close>

definition REGISTRATION_AURA :: uint256 where "REGISTRATION_AURA = 100"
definition MATCH_AURA :: uint256 where "MATCH_AURA = 75"
definition REVEAL_AURA :: uint256 where "REVEAL_AURA = 150"
definition VERIFICATION_AURA :: uint256 where "VERIFICATION_AURA = 100"

section \<open>Checked arithmetic, sequencing and revert\<close>

definition checked_add :: "uint256 \<Rightarrow> uint256 \<Rightarrow> error + uint256" where
  "checked_add a b = (if unat a + unat b < 2 ^ 256 then Inr (a + b) else Inl Panic)"

definition checked_sub :: "uint256 \<Rightarrow> uint256 \<Rightarrow> error + uint256" where
  "checked_sub a b = (if unat b \<le> unat a then Inr (a - b) else Inl Panic)"

definition and_then :: "error + 'a \<Rightarrow> ('a \<Rightarrow> error + 'b) \<Rightarrow> error + 'b" where
  "and_then r f = (case r of Inl e \<Rightarrow> Inl e | Inr x \<Rightarrow> f x)"

text \<open>The storage after a call that was made in state \<open>s\<close>: a failed call reverts to \<open>s\<close>.\<close>

definition state_after :: "zkLove \<Rightarrow> error + zkLove \<Rightarrow> zkLove" where
  "state_after s r = (case r of Inl e \<Rightarrow> s | Inr s' \<Rightarrow> s')"

text \<open>The statements \<open>userProfiles[u].auraPoints += n\<close>, \<open>userProfiles[u].totalMatches++\<close>
  and \<open>userProfiles[u].totalReveals++\<close>.\<close>

definition auraPoints_add :: "address \<Rightarrow> uint256 \<Rightarrow> zkLove \<Rightarrow> error + zkLove" where
  "auraPoints_add u n s =
     and_then (checked_add (auraPoints (userProfiles s u)) n)
       (\<lambda>v. Inr (s\<lparr>userProfiles := (userProfiles s)(u := (userProfiles s u)\<lparr>auraPoints := v\<rparr>)\<rparr>))"

definition totalMatches_incr :: "address \<Rightarrow> zkLove \<Rightarrow> error + zkLove" where
  "totalMatches_incr u s =
     and_then (checked_add (totalMatches (userProfiles s u)) 1)
       (\<lambda>v. Inr (s\<lparr>userProfiles := (userProfiles s)(u := (userProfiles s u)\<lparr>totalMatches := v\<rparr>)\<rparr>))"

definition totalReveals_incr :: "address \<Rightarrow> zkLove \<Rightarrow> error + zkLove" where
  "totalReveals_incr u s =
     and_then (checked_add (totalReveals (userProfiles s u)) 1)
       (\<lambda>v. Inr (s\<lparr>userProfiles := (userProfiles s)(u := (userProfiles s u)\<lparr>totalReveals := v\<rparr>)\<rparr>))"

definition emit :: "event list \<Rightarrow> zkLove \<Rightarrow> zkLove" where
  "emit es s = s\<lparr>events := events s @ es\<rparr>"

section \<open>The constructor\<close>

definition zero_profile :: UserProfile where
  "zero_profile = \<lparr>biometricCommitment = 0, preferencesHash = 0, auraPoints = 0,
     registrationTimestamp = 0, lastActiveTimestamp = 0, isActive = False, isVerified = False,
     totalMatches = 0, totalReveals = 0\<rparr>"

definition zero_session :: MatchingSession where
  "zero_session = \<lparr>user = 0, matchingHash = 0, auraThreshold = 0, timestamp = 0,
     sessionIsActive = False\<rparr>"

definition zero_match :: MutualMatch where
  "zero_match = \<lparr>user1 = 0, user2 = 0, compatibilityScore = 0, matchTimestamp = 0,
     user1Revealed = False, user2Revealed = False, revealTimestamp = 0\<rparr>"

definition constructor :: "address \<Rightarrow> zkLove" where
  "constructor sender =
     \<lparr>userProfiles = (\<lambda>a. zero_profile), matchingSessions = (\<lambda>h. zero_session),
      mutualMatches = (\<lambda>h. zero_match), hasRevealed = (\<lambda>a b. False),
      owner = sender, totalUsers = 0, globalTotalMatches = 0, globalTotalReveals = 0,
      contractPaused = False, events = []\<rparr>"

section \<open>Proof verification placeholders\<close>

definition verifyRegistrationProof :: "ZKProof \<Rightarrow> bytes32 \<Rightarrow> bool" where
  "verifyRegistrationProof registrationProof commitment \<longleftrightarrow>
     length (publicSignals registrationProof) > 0 \<and> commitment \<noteq> 0"

definition verifyMatchingProof :: "ZKProof \<Rightarrow> bytes32 \<Rightarrow> bool" where
  "verifyMatchingProof matchingProof mh \<longleftrightarrow>
     length (publicSignals matchingProof) > 0 \<and> mh \<noteq> 0"

definition verifyUnlockProof :: "ZKProof \<Rightarrow> bytes32 \<Rightarrow> address \<Rightarrow> bool" where
  "verifyUnlockProof unlockProof matchId u \<longleftrightarrow>
     length (publicSignals unlockProof) > 0 \<and> matchId \<noteq> 0 \<and> u \<noteq> 0"

section \<open>User registration\<close>

text \<open>
  Every external function takes the state, \<open>msg.sender\<close> and \<open>block.timestamp\<close> first.
  The modifiers run in the order in which the function lists them, before the body.
  \<open>registerUser\<close> receives the registration proof and does not look at it.
\<close>

definition registerUser ::
  "zkLove \<Rightarrow> address \<Rightarrow> uint256 \<Rightarrow> bytes32 \<Rightarrow> bytes32 \<Rightarrow> ZKProof \<Rightarrow> error + zkLove" where
  "registerUser s sender now commitment prefs registrationProof =
     (if contractPaused s then Inl (Revert ''Contract is paused'')
      else if biometricCommitment (userProfiles s sender) \<noteq> 0
        then Inl (Revert ''User already registered'')
      else if commitment = 0 then Inl (Revert ''Invalid biometric commitment'')
      else
        and_then (checked_add (totalUsers s) 1)
          (\<lambda>n. Inr (emit [UserRegistered sender commitment now,
                          AuraPointsAwarded sender REGISTRATION_AURA ''Registration'']
                 (s\<lparr>userProfiles := (userProfiles s)(sender :=
                       \<lparr>biometricCommitment = commitment, preferencesHash = prefs,
                        auraPoints = REGISTRATION_AURA, registrationTimestamp = now,
                        lastActiveTimestamp = now, isActive = True, isVerified = False,
                        totalMatches = 0, totalReveals = 0\<rparr>),
                    totalUsers := n\<rparr>))))"

definition updatePreferences ::
  "zkLove \<Rightarrow> address \<Rightarrow> uint256 \<Rightarrow> bytes32 \<Rightarrow> ZKProof \<Rightarrow> error + zkLove" where
  "updatePreferences s sender now newPreferencesHash updateProof =
     (if biometricCommitment (userProfiles s sender) = 0 then Inl (Revert ''User not registered'')
      else if contractPaused s then Inl (Revert ''Contract is paused'')
      else if newPreferencesHash = 0 then Inl (Revert ''Invalid preferences hash'')
      else Inr (s\<lparr>userProfiles := (userProfiles s)(sender :=
                  (userProfiles s sender)\<lparr>preferencesHash := newPreferencesHash,
                                          lastActiveTimestamp := now\<rparr>)\<rparr>))"

section \<open>Matching\<close>

definition submitMatchingProof ::
  "zkLove \<Rightarrow> address \<Rightarrow> uint256 \<Rightarrow> bytes32 \<Rightarrow> uint256 \<Rightarrow> ZKProof \<Rightarrow> error + zkLove" where
  "submitMatchingProof s sender now mh threshold matchingProof =
     (if biometricCommitment (userProfiles s sender) = 0 then Inl (Revert ''User not registered'')
      else if \<not> isActive (userProfiles s sender) then Inl (Revert ''User not active'')
      else if contractPaused s then Inl (Revert ''Contract is paused'')
      else if mh = 0 then Inl (Revert ''Invalid matching hash'')
      else Inr (emit [MatchProofSubmitted sender mh now]
             (s\<lparr>matchingSessions := (matchingSessions s)(mh :=
                   \<lparr>user = sender, matchingHash = mh, auraThreshold = threshold,
                    timestamp = now, sessionIsActive = True\<rparr>),
                userProfiles := (userProfiles s)(sender :=
                   (userProfiles s sender)\<lparr>lastActiveTimestamp := now\<rparr>)\<rparr>)))"

text \<open>
  \<open>keccak\<close> stands for \<open>keccak256(abi.encodePacked(user1, user2, timestamp))\<close>; the hash
  function is a parameter of the two functions that compute a match identifier.
\<close>

definition recordMutualMatch ::
  "(address \<Rightarrow> address \<Rightarrow> uint256 \<Rightarrow> bytes32) \<Rightarrow> zkLove \<Rightarrow> address \<Rightarrow> uint256 \<Rightarrow>
     address \<Rightarrow> address \<Rightarrow> uint256 \<Rightarrow> ZKProof \<Rightarrow> error + zkLove" where
  "recordMutualMatch keccak s sender now u1 u2 score matchProof =
     (if sender \<noteq> owner s then Inl (Revert ''Only owner can call this function'')
      else if contractPaused s then Inl (Revert ''Contract is paused'')
      else if u1 = u2 then Inl (Revert ''Cannot match with self'')
      else if \<not> (isActive (userProfiles s u1) \<and> isActive (userProfiles s u2))
        then Inl (Revert ''Both users must be active'')
      else if \<not> score \<le> 100 then Inl (Revert ''Invalid compatibility score'')
      else
        and_then (auraPoints_add u1 MATCH_AURA
           (s\<lparr>mutualMatches := (mutualMatches s)(keccak u1 u2 now :=
                 \<lparr>user1 = u1, user2 = u2, compatibilityScore = score, matchTimestamp = now,
                  user1Revealed = False, user2Revealed = False, revealTimestamp = 0\<rparr>)\<rparr>))
        (\<lambda>s. and_then (auraPoints_add u2 MATCH_AURA s)
        (\<lambda>s. and_then (totalMatches_incr u1 s)
        (\<lambda>s. and_then (totalMatches_incr u2 s)
        (\<lambda>s. and_then (checked_add (globalTotalMatches s) 1)
        (\<lambda>n. Inr (emit [MutualMatchFound u1 u2 score,
                        AuraPointsAwarded u1 MATCH_AURA ''Mutual Match'',
                        AuraPointsAwarded u2 MATCH_AURA ''Mutual Match'']
                    (s\<lparr>globalTotalMatches := n\<rparr>))))))))"

section \<open>Selective identity disclosure\<close>

text \<open>
  \<open>match\<close> is a storage reference to \<open>mutualMatches[matchId]\<close>: every read of a field
  of \<open>match\<close> reads the current storage.
\<close>

definition reveal_flag :: "bytes32 \<Rightarrow> address \<Rightarrow> zkLove \<Rightarrow> zkLove" where
  "reveal_flag matchId sender s =
     (if user1 (mutualMatches s matchId) = sender
      then s\<lparr>mutualMatches := (mutualMatches s)(matchId :=
                (mutualMatches s matchId)\<lparr>user1Revealed := True\<rparr>)\<rparr>
      else s\<lparr>mutualMatches := (mutualMatches s)(matchId :=
                (mutualMatches s matchId)\<lparr>user2Revealed := True\<rparr>)\<rparr>)"

definition reveal_reward :: "bytes32 \<Rightarrow> uint256 \<Rightarrow> zkLove \<Rightarrow> error + zkLove" where
  "reveal_reward matchId now s =
     (if user1Revealed (mutualMatches s matchId) \<and> user2Revealed (mutualMatches s matchId)
      then
        and_then (auraPoints_add (user1 (mutualMatches s matchId)) REVEAL_AURA
           (s\<lparr>mutualMatches := (mutualMatches s)(matchId :=
                 (mutualMatches s matchId)\<lparr>revealTimestamp := now\<rparr>)\<rparr>))
        (\<lambda>s. and_then (auraPoints_add (user2 (mutualMatches s matchId)) REVEAL_AURA s)
        (\<lambda>s. and_then (totalReveals_incr (user1 (mutualMatches s matchId)) s)
        (\<lambda>s. and_then (totalReveals_incr (user2 (mutualMatches s matchId)) s)
        (\<lambda>s. and_then (checked_add (globalTotalReveals s) 1)
        (\<lambda>n. Inr (emit
              [IdentityRevealed (user1 (mutualMatches s matchId)) (user2 (mutualMatches s matchId))
                 REVEAL_AURA,
               IdentityRevealed (user2 (mutualMatches s matchId)) (user1 (mutualMatches s matchId))
                 REVEAL_AURA,
               AuraPointsAwarded (user1 (mutualMatches s matchId)) REVEAL_AURA ''Identity Reveal'',
               AuraPointsAwarded (user2 (mutualMatches s matchId)) REVEAL_AURA ''Identity Reveal'']
              (s\<lparr>globalTotalReveals := n\<rparr>)))))))
      else Inr s)"

definition reveal_record ::
  "(address \<Rightarrow> address \<Rightarrow> uint256 \<Rightarrow> bytes32) \<Rightarrow> bytes32 \<Rightarrow> address \<Rightarrow> zkLove \<Rightarrow> zkLove" where
  "reveal_record keccak matchId sender s =
     (let m = mutualMatches s matchId;
          recipient = (if matchId = keccak (user1 m) (user2 m) (matchTimestamp m)
                       then user1 m else user2 m)
      in s\<lparr>hasRevealed := (hasRevealed s)(sender := (hasRevealed s sender)(recipient := True))\<rparr>)"

definition initiateIdentityReveal ::
  "(address \<Rightarrow> address \<Rightarrow> uint256 \<Rightarrow> bytes32) \<Rightarrow> zkLove \<Rightarrow> address \<Rightarrow> uint256 \<Rightarrow>
     bytes32 \<Rightarrow> bytes32 list \<Rightarrow> ZKProof \<Rightarrow> error + zkLove" where
  "initiateIdentityReveal keccak s sender now matchId revealCommitments unlockProof =
     (if biometricCommitment (userProfiles s sender) = 0 then Inl (Revert ''User not registered'')
      else if contractPaused s then Inl (Revert ''Contract is paused'')
      else if \<not> (user1 (mutualMatches s matchId) = sender \<or> user2 (mutualMatches s matchId) = sender)
        then Inl (Revert ''Not part of this match'')
      else if \<not> matchTimestamp (mutualMatches s matchId) > 0
        then Inl (Revert ''Match does not exist'')
      else
        and_then (reveal_reward matchId now (reveal_flag matchId sender s))
          (\<lambda>s. Inr (reveal_record keccak matchId sender s)))"

section \<open>Aura points\<close>

definition awardBonusAura ::
  "zkLove \<Rightarrow> address \<Rightarrow> uint256 \<Rightarrow> address \<Rightarrow> uint256 \<Rightarrow> string \<Rightarrow> error + zkLove" where
  "awardBonusAura s sender now u points reason =
     (if sender \<noteq> owner s then Inl (Revert ''Only owner can call this function'')
      else if contractPaused s then Inl (Revert ''Contract is paused'')
      else if biometricCommitment (userProfiles s u) = 0 then Inl (Revert ''User not registered'')
      else
        and_then (auraPoints_add u points s)
          (\<lambda>s. Inr (emit [AuraPointsAwarded u points reason] s)))"

definition deductAura ::
  "zkLove \<Rightarrow> address \<Rightarrow> uint256 \<Rightarrow> address \<Rightarrow> uint256 \<Rightarrow> string \<Rightarrow> error + zkLove" where
  "deductAura s sender now u points reason =
     (if sender \<noteq> owner s then Inl (Revert ''Only owner can call this function'')
      else if contractPaused s then Inl (Revert ''Contract is paused'')
      else if biometricCommitment (userProfiles s u) = 0 then Inl (Revert ''User not registered'')
      else
        and_then
          (if auraPoints (userProfiles s u) \<ge> points
           then and_then (checked_sub (auraPoints (userProfiles s u)) points)
                  (\<lambda>v. Inr (s\<lparr>userProfiles := (userProfiles s)(u :=
                               (userProfiles s u)\<lparr>auraPoints := v\<rparr>)\<rparr>))
           else Inr (s\<lparr>userProfiles := (userProfiles s)(u :=
                        (userProfiles s u)\<lparr>auraPoints := 0\<rparr>)\<rparr>))
          (\<lambda>s. Inr (emit [AuraPointsDeducted u points reason] s)))"

section \<open>User management and administration\<close>

definition setActiveStatus :: "zkLove \<Rightarrow> address \<Rightarrow> uint256 \<Rightarrow> bool \<Rightarrow> error + zkLove" where
  "setActiveStatus s sender now active =
     (if biometricCommitment (userProfiles s sender) = 0 then Inl (Revert ''User not registered'')
      else if contractPaused s then Inl (Revert ''Contract is paused'')
      else Inr (s\<lparr>userProfiles := (userProfiles s)(sender :=
                  (userProfiles s sender)\<lparr>isActive := active, lastActiveTimestamp := now\<rparr>)\<rparr>))"

definition verifyUser :: "zkLove \<Rightarrow> address \<Rightarrow> uint256 \<Rightarrow> address \<Rightarrow> error + zkLove" where
  "verifyUser s sender now u =
     (if sender \<noteq> owner s then Inl (Revert ''Only owner can call this function'')
      else if contractPaused s then Inl (Revert ''Contract is paused'')
      else if biometricCommitment (userProfiles s u) = 0 then Inl (Revert ''User not registered'')
      else
        and_then (auraPoints_add u VERIFICATION_AURA
           (s\<lparr>userProfiles := (userProfiles s)(u := (userProfiles s u)\<lparr>isVerified := True\<rparr>)\<rparr>))
          (\<lambda>s. Inr (emit [AuraPointsAwarded u VERIFICATION_AURA ''Profile Verification''] s)))"

definition setPaused :: "zkLove \<Rightarrow> address \<Rightarrow> uint256 \<Rightarrow> bool \<Rightarrow> error + zkLove" where
  "setPaused s sender now paused =
     (if sender \<noteq> owner s then Inl (Revert ''Only owner can call this function'')
      else Inr (s\<lparr>contractPaused := paused\<rparr>))"

definition transferOwnership :: "zkLove \<Rightarrow> address \<Rightarrow> uint256 \<Rightarrow> address \<Rightarrow> error + zkLove" where
  "transferOwnership s sender now newOwner =
     (if sender \<noteq> owner s then Inl (Revert ''Only owner can call this function'')
      else if newOwner = 0 then Inl (Revert ''Invalid new owner'')
      else Inr (s\<lparr>owner := newOwner\<rparr>))"

section \<open>View functions\<close>

text \<open>A view function has no modifier and no \<open>require\<close>: it returns its value in every state.\<close>

definition getUserProfile :: "zkLove \<Rightarrow> address \<Rightarrow> error + UserProfile" where
  "getUserProfile s u = Inr (userProfiles s u)"

definition getMatchingSession :: "zkLove \<Rightarrow> bytes32 \<Rightarrow> error + MatchingSession" where
  "getMatchingSession s mh = Inr (matchingSessions s mh)"

definition getMutualMatch :: "zkLove \<Rightarrow> bytes32 \<Rightarrow> error + MutualMatch" where
  "getMutualMatch s matchId = Inr (mutualMatches s matchId)"

definition hasUserRevealed :: "zkLove \<Rightarrow> address \<Rightarrow> address \<Rightarrow> error + bool" where
  "hasUserRevealed s revealer recipient = Inr (hasRevealed s revealer recipient)"

definition getContractStats :: "zkLove \<Rightarrow> error + uint256 \<times> uint256 \<times> uint256" where
  "getContractStats s = Inr (totalUsers s, globalTotalMatches s, globalTotalReveals s)"

section \<open>Sequences of deductions\<close>

text \<open>
  A sequence of \<open>deductAura\<close> calls by one sender on one user, each with its own
  timestamp, points and reason; the sequence stops at the first call that fails.
\<close>

fun deductAura_all ::
  "zkLove \<Rightarrow> address \<Rightarrow> address \<Rightarrow> (uint256 \<times> uint256 \<times> string) list \<Rightarrow> error + zkLove" where
  "deductAura_all s sender u [] = Inr s"
| "deductAura_all s sender u ((now, points, reason) # calls) =
     and_then (deductAura s sender now u points reason) (\<lambda>s'. deductAura_all s' sender u calls)"

section \<open>A reachable scenario\<close>

text \<open>
  The deployer, and so the owner, is address 1. Address 2 and then address 3 register, each
  with a proof that has no public signals. The owner records a match of 2 (as \<open>user1\<close>)
  with 3 (as \<open>user2\<close>) at time 1000, whose identifier is \<open>keccak 2 3 1000\<close>. Then 2 reveals
  at time 2000 and 3 reveals at time 3000. In a second continuation the owner pauses the
  contract after the two registrations; in a third, 2 submits a matching session under the
  hash 77. \<open>toy_keccak\<close> is a stand-in for the hash function where a closed term is needed.
\<close>

definition empty_proof :: ZKProof where
  "empty_proof = \<lparr>pi_a = (0, 0), pi_b = ((0, 0), (0, 0)), pi_c = (0, 0), publicSignals = []\<rparr>"

definition toy_keccak :: "address \<Rightarrow> address \<Rightarrow> uint256 \<Rightarrow> bytes32" where
  "toy_keccak a b t = ucast a + 3 * ucast b + 7 * t"

definition st_deployed :: zkLove where
  "st_deployed = constructor 1"

definition st_first :: zkLove where
  "st_first = state_after st_deployed (registerUser st_deployed 2 10 11 12 empty_proof)"

definition st_registered :: zkLove where
  "st_registered = state_after st_first (registerUser st_first 3 20 21 22 empty_proof)"

definition st_paused :: zkLove where
  "st_paused = state_after st_registered (setPaused st_registered 1 30 True)"

definition st_matched :: "(address \<Rightarrow> address \<Rightarrow> uint256 \<Rightarrow> bytes32) \<Rightarrow> zkLove" where
  "st_matched keccak =
     state_after st_registered
       (recordMutualMatch keccak st_registered 1 1000 2 3 90 empty_proof)"

definition st_revealed1 :: "(address \<Rightarrow> address \<Rightarrow> uint256 \<Rightarrow> bytes32) \<Rightarrow> zkLove" where
  "st_revealed1 keccak =
     state_after (st_matched keccak)
       (initiateIdentityReveal keccak (st_matched keccak) 2 2000 (keccak 2 3 1000) [] empty_proof)"

definition st_revealed2 :: "(address \<Rightarrow> address \<Rightarrow> uint256 \<Rightarrow> bytes32) \<Rightarrow> zkLove" where
  "st_revealed2 keccak =
     state_after (st_revealed1 keccak)
       (initiateIdentityReveal keccak (st_revealed1 keccak) 3 3000 (keccak 2 3 1000) [] empty_proof)"

definition st_intent :: zkLove where
  "st_intent =
     state_after st_registered (submitMatchingProof st_registered 2 100 77 50 empty_proof)"

lemmas zkLove_defs =
  state_after_def constructor_def and_then_def checked_add_def checked_sub_def emit_def
  zero_profile_def zero_session_def zero_match_def
  REGISTRATION_AURA_def MATCH_AURA_def REVEAL_AURA_def VERIFICATION_AURA_def
  auraPoints_add_def totalMatches_incr_def totalReveals_incr_def
  registerUser_def recordMutualMatch_def initiateIdentityReveal_def
  reveal_flag_def reveal_reward_def reveal_record_def

lemmas scenario_defs =
  st_deployed_def st_first_def st_registered_def st_paused_def st_matched_def
  st_revealed1_def st_revealed2_def empty_proof_def

section \<open>Auxiliary facts\<close>

lemma checked_add_Inr:
  "checked_add a b = Inr v \<Longrightarrow> v = a + b \<and> unat v = unat a + unat b"
  by (auto simp: checked_add_def unat_word_ariths split: if_splits)

lemma and_then_Inr:
  "and_then r f = Inr y \<longleftrightarrow> (\<exists>x. r = Inr x \<and> f x = Inr y)"
  by (cases r) (simp_all add: and_then_def)

lemma auraPoints_add_Inr:
  "auraPoints_add u n s = Inr s' \<Longrightarrow>
     s' = s\<lparr>userProfiles := (userProfiles s)(u :=
             (userProfiles s u)\<lparr>auraPoints := auraPoints (userProfiles s u) + n\<rparr>)\<rparr>
     \<and> unat (auraPoints (userProfiles s u) + n) = unat (auraPoints (userProfiles s u)) + unat n"
  by (auto simp: auraPoints_add_def and_then_Inr dest!: checked_add_Inr)

lemma totalMatches_incr_Inr:
  "totalMatches_incr u s = Inr s' \<Longrightarrow>
     s' = s\<lparr>userProfiles := (userProfiles s)(u :=
             (userProfiles s u)\<lparr>totalMatches := totalMatches (userProfiles s u) + 1\<rparr>)\<rparr>
     \<and> unat (totalMatches (userProfiles s u) + 1) = unat (totalMatches (userProfiles s u)) + 1"
  by (auto simp: totalMatches_incr_def and_then_Inr dest!: checked_add_Inr)

lemma recordMutualMatch_Inr:
  assumes "recordMutualMatch keccak s sender now a b score matchProof = Inr s'"
  shows "sender = owner s \<and> \<not> contractPaused s \<and> a \<noteq> b
     \<and> isActive (userProfiles s a) \<and> isActive (userProfiles s b) \<and> score \<le> 100
     \<and> unat (totalMatches (userProfiles s' a)) = unat (totalMatches (userProfiles s a)) + 1
     \<and> unat (totalMatches (userProfiles s' b)) = unat (totalMatches (userProfiles s b)) + 1
     \<and> unat (auraPoints (userProfiles s' a))
         = unat (auraPoints (userProfiles s a)) + unat MATCH_AURA
     \<and> unat (auraPoints (userProfiles s' b))
         = unat (auraPoints (userProfiles s b)) + unat MATCH_AURA
     \<and> unat (globalTotalMatches s') = unat (globalTotalMatches s) + 1"
  using assms
  by (auto simp: recordMutualMatch_def and_then_Inr emit_def split: if_splits
      dest!: auraPoints_add_Inr totalMatches_incr_Inr checked_add_Inr)

lemma deductAura_step:
  assumes "sender = owner s" and "\<not> contractPaused s"
    and "biometricCommitment (userProfiles s u) \<noteq> 0"
  shows "\<exists>s'. deductAura s sender now u points reason = Inr s'
     \<and> sender = owner s' \<and> \<not> contractPaused s'
     \<and> biometricCommitment (userProfiles s' u) \<noteq> 0
     \<and> auraPoints (userProfiles s' u)
         = (if points \<le> auraPoints (userProfiles s u)
            then auraPoints (userProfiles s u) - points else 0)
     \<and> unat (auraPoints (userProfiles s' u))
         = unat (auraPoints (userProfiles s u))
           - min (unat points) (unat (auraPoints (userProfiles s u)))"
  using assms
  by (auto simp: deductAura_def and_then_def checked_sub_def emit_def word_le_nat_alt
      unat_sub_if' min_def)

lemma deductAura_all_balance:
  assumes "sender = owner s" and "\<not> contractPaused s"
    and "biometricCommitment (userProfiles s u) \<noteq> 0"
  shows "\<exists>s'. deductAura_all s sender u calls = Inr s'
     \<and> unat (auraPoints (userProfiles s' u))
         = foldl (\<lambda>balance (now, points, reason). balance - min (unat points) balance)
             (unat (auraPoints (userProfiles s u))) calls
     \<and> unat (auraPoints (userProfiles s' u)) \<le> unat (auraPoints (userProfiles s u))"
  using assms
proof (induction calls arbitrary: s)
  case Nil
  then show ?case by simp
next
  case (Cons c calls)
  obtain now points reason where c: "c = (now, points, reason)"
    by (cases c) auto
  from deductAura_step [OF Cons.prems, of now points reason]
  obtain s1 where s1: "deductAura s sender now u points reason = Inr s1"
    "sender = owner s1" "\<not> contractPaused s1" "biometricCommitment (userProfiles s1 u) \<noteq> 0"
    "unat (auraPoints (userProfiles s1 u))
         = unat (auraPoints (userProfiles s u))
           - min (unat points) (unat (auraPoints (userProfiles s u)))"
    by blast
  from Cons.IH [OF s1(2,3,4)] obtain s' where s': "deductAura_all s1 sender u calls = Inr s'"
    "unat (auraPoints (userProfiles s' u))
         = foldl (\<lambda>balance (now, points, reason). balance - min (unat points) balance)
             (unat (auraPoints (userProfiles s1 u))) calls"
    "unat (auraPoints (userProfiles s' u)) \<le> unat (auraPoints (userProfiles s1 u))"
    by blast
  have "deductAura_all s sender u (c # calls) = Inr s'"
    using s1(1) s'(1) by (simp add: c and_then_def)
  moreover have "unat (auraPoints (userProfiles s' u))
         = foldl (\<lambda>balance (now, points, reason). balance - min (unat points) balance)
             (unat (auraPoints (userProfiles s u))) (c # calls)"
    using s'(2) s1(5) by (simp add: c)
  moreover have "unat (auraPoints (userProfiles s' u)) \<le> unat (auraPoints (userProfiles s u))"
    using s'(3) s1(5) by simp
  ultimately show ?case by blast
qed

lemma st_registered_facts:
  "owner st_registered = 1" "\<not> contractPaused st_registered"
  "biometricCommitment (userProfiles st_registered 2) = 11"
  "biometricCommitment (userProfiles st_registered 3) = 21"
  "isActive (userProfiles st_registered 2)" "isActive (userProfiles st_registered 3)"
  "\<not> isActive (userProfiles st_registered 4)"
  "unat (auraPoints (userProfiles st_registered 2)) = 100"
  "unat (auraPoints (userProfiles st_registered 3)) = 100"
  "unat (totalMatches (userProfiles st_registered 2)) = 0"
  "unat (totalMatches (userProfiles st_registered 3)) = 0"
  "unat (globalTotalMatches st_registered) = 0"
  by (simp_all add: scenario_defs zkLove_defs)

lemma st_paused_facts:
  "contractPaused st_paused" "owner st_paused = 1"
  "biometricCommitment (userProfiles st_paused 2) = 11"
  "isActive (userProfiles st_paused 2)"
  "biometricCommitment (userProfiles st_paused 4) = 0"
  "totalUsers st_paused = 2" "globalTotalMatches st_paused = 0"
  "globalTotalReveals st_paused = 0"
  by (simp_all add: scenario_defs zkLove_defs setPaused_def)

section \<open>The reveal flow\<close>

text \<open>
  C1: over any sequence of successful \<open>initiateIdentityReveal\<close> calls on a match, the
  reveal flow credits \<open>REVEAL_AURA\<close> to each participant exactly once and \<open>revealTimestamp\<close>
  goes from zero to non-zero exactly once, at the second of the two reveals; no later call
  changes it or credits again.

  The contract does not do this. The reward block runs whenever both flags are set after the
  caller's flag is written, with no test that \<open>revealTimestamp\<close> is still zero. In the
  scenario, 2 reveals (no reward, timestamp 0), 3 reveals (reward, timestamp 3000), and
  a third call by 2 at time 4000 succeeds, credits \<open>REVEAL_AURA\<close> to both once more, counts a
  second reveal for both and overwrites the timestamp with 4000.
\<close>

theorem reveal_reward_repeats:
  "revealTimestamp (mutualMatches (st_matched keccak) (keccak 2 3 1000)) = 0
   \<and> \<not> isl (initiateIdentityReveal keccak (st_matched keccak) 2 2000 (keccak 2 3 1000) []
              empty_proof)
   \<and> revealTimestamp (mutualMatches (st_revealed1 keccak) (keccak 2 3 1000)) = 0
   \<and> auraPoints (userProfiles (st_revealed1 keccak) 2) = 175
   \<and> auraPoints (userProfiles (st_revealed1 keccak) 3) = 175
   \<and> \<not> isl (initiateIdentityReveal keccak (st_revealed1 keccak) 3 3000 (keccak 2 3 1000) []
              empty_proof)
   \<and> revealTimestamp (mutualMatches (st_revealed2 keccak) (keccak 2 3 1000)) = 3000
   \<and> auraPoints (userProfiles (st_revealed2 keccak) 2) = 175 + REVEAL_AURA
   \<and> auraPoints (userProfiles (st_revealed2 keccak) 3) = 175 + REVEAL_AURA
   \<and> (\<exists>s'. initiateIdentityReveal keccak (st_revealed2 keccak) 2 4000 (keccak 2 3 1000) []
              empty_proof = Inr s'
         \<and> revealTimestamp (mutualMatches s' (keccak 2 3 1000)) = 4000
         \<and> auraPoints (userProfiles s' 2) = 175 + REVEAL_AURA + REVEAL_AURA
         \<and> auraPoints (userProfiles s' 3) = 175 + REVEAL_AURA + REVEAL_AURA
         \<and> totalReveals (userProfiles s' 2) = 2
         \<and> totalReveals (userProfiles s' 3) = 2
         \<and> globalTotalReveals s' = 2)"
  by (simp add: scenario_defs zkLove_defs)

text \<open>
  C2: a second \<open>initiateIdentityReveal\<close> call by the same participant on the same match is
  a no-op: no error, no flag changed, no Aura credited, no reveal counter incremented.

  The contract does not do this once the counterpart has revealed. In the scenario both
  flags are set after the reveals of 2 and 3; the second call of 3 succeeds and returns a
  different state: both balances grow by \<open>REVEAL_AURA\<close>, the reveal counters grow by one and
  \<open>revealTimestamp\<close> moves from 3000 to 4000.
\<close>

theorem second_reveal_not_noop:
  "user1Revealed (mutualMatches (st_revealed2 keccak) (keccak 2 3 1000))
   \<and> user2Revealed (mutualMatches (st_revealed2 keccak) (keccak 2 3 1000))
   \<and> revealTimestamp (mutualMatches (st_revealed2 keccak) (keccak 2 3 1000)) = 3000
   \<and> (\<exists>s'. initiateIdentityReveal keccak (st_revealed2 keccak) 3 4000 (keccak 2 3 1000) []
              empty_proof = Inr s'
         \<and> s' \<noteq> st_revealed2 keccak
         \<and> auraPoints (userProfiles s' 3)
             = auraPoints (userProfiles (st_revealed2 keccak) 3) + REVEAL_AURA
         \<and> auraPoints (userProfiles s' 2)
             = auraPoints (userProfiles (st_revealed2 keccak) 2) + REVEAL_AURA
         \<and> totalReveals (userProfiles s' 3)
             = totalReveals (userProfiles (st_revealed2 keccak) 3) + 1
         \<and> globalTotalReveals s' = globalTotalReveals (st_revealed2 keccak) + 1
         \<and> revealTimestamp (mutualMatches s' (keccak 2 3 1000)) = 4000)"
  by (simp add: scenario_defs zkLove_defs)

text \<open>
  C4: after a participant's successful reveal on a match, \<open>hasUserRevealed\<close> of that
  participant and the counterpart is true, for either side.

  The contract records the pair \<open>(msg.sender, user1)\<close> whenever the identifier of the match
  is the hash of its two users and its timestamp, which holds for every match that
  \<open>recordMutualMatch\<close> stores. So the reveal of \<open>user2\<close> is recorded against \<open>user1\<close>, and the
  reveal of \<open>user1\<close> is recorded against \<open>user1\<close> itself, not against \<open>user2\<close>.
\<close>

theorem reveal_by_user1_not_recorded:
  "user1 (mutualMatches (st_matched keccak) (keccak 2 3 1000)) = 2
   \<and> user2 (mutualMatches (st_matched keccak) (keccak 2 3 1000)) = 3
   \<and> (\<exists>s'. initiateIdentityReveal keccak (st_matched keccak) 2 2000 (keccak 2 3 1000) []
              empty_proof = Inr s'
         \<and> user1Revealed (mutualMatches s' (keccak 2 3 1000))
         \<and> hasUserRevealed s' 2 3 = Inr False
         \<and> hasUserRevealed s' 2 2 = Inr True)
   \<and> hasUserRevealed (st_revealed2 keccak) 3 2 = Inr True
   \<and> hasUserRevealed (st_revealed2 keccak) 2 3 = Inr False"
  by (simp add: scenario_defs zkLove_defs hasUserRevealed_def)

text \<open>
  C5: for a registered caller, \<open>initiateIdentityReveal\<close> on an identifier with no match fails
  with the error for a missing match (\<open>Match does not exist\<close>), and on an existing match of
  which the caller is no participant it fails with \<open>Not part of this match\<close>.

  The contract tests participation first. A missing match is the all-zero struct, whose
  two users are the zero address, so the registered caller 2 is told \<open>Not part of this
  match\<close> for every identifier in a state that holds no match.
\<close>

theorem unknown_match_reports_not_participant:
  "biometricCommitment (userProfiles st_registered 2) \<noteq> 0
   \<and> \<not> contractPaused st_registered
   \<and> mutualMatches st_registered matchId = zero_match
   \<and> initiateIdentityReveal keccak st_registered 2 now matchId revealCommitments unlockProof
       = Inl (Revert ''Not part of this match'')"
  by (simp add: scenario_defs zkLove_defs)

section \<open>Registration\<close>

text \<open>
  C3: \<open>registerUser\<close> fails with an invalid-proof error when the verifier rejects the
  registration proof for the biometric commitment.

  The contract never calls \<open>verifyRegistrationProof\<close>: the \<open>require\<close> is commented out. A
  proof with no public signals is rejected by \<open>verifyRegistrationProof\<close> and the registration
  with it succeeds.
\<close>

theorem registerUser_accepts_rejected_proof:
  "\<not> verifyRegistrationProof empty_proof 11
   \<and> (\<exists>s'. registerUser st_deployed 2 10 11 12 empty_proof = Inr s'
         \<and> biometricCommitment (userProfiles s' 2) = 11
         \<and> auraPoints (userProfiles s' 2) = REGISTRATION_AURA
         \<and> totalUsers s' = 1)"
  by (simp add: scenario_defs zkLove_defs verifyRegistrationProof_def)

text \<open>
  C6: after a successful \<open>registerUser\<close> call by a sender, a second call by the same
  sender, with any arguments and at any time, fails with \<open>User already registered\<close>, and
  the state after the failed call is the state after the first call.
\<close>

theorem registerUser_twice:
  assumes "registerUser s sender now commitment prefs registrationProof = Inr s1"
  shows "registerUser s1 sender now' commitment' prefs' registrationProof'
           = Inl (Revert ''User already registered'')
         \<and> state_after s1 (registerUser s1 sender now' commitment' prefs' registrationProof')
             = s1"
proof -
  from assms have "\<not> contractPaused s1" and "biometricCommitment (userProfiles s1 sender) \<noteq> 0"
    by (auto simp: registerUser_def and_then_Inr emit_def split: if_splits)
  then have "registerUser s1 sender now' commitment' prefs' registrationProof'
           = Inl (Revert ''User already registered'')"
    by (simp add: registerUser_def)
  then show ?thesis by (simp add: state_after_def)
qed

theorem registerUser_twice_witness:
  "registerUser st_deployed 2 10 11 12 empty_proof = Inr st_first
   \<and> registerUser st_first 2 40 41 42 empty_proof = Inl (Revert ''User already registered'')
   \<and> state_after st_first (registerUser st_first 2 40 41 42 empty_proof) = st_first"
proof -
  have h: "registerUser st_deployed 2 10 11 12 empty_proof = Inr st_first"
    by (simp add: scenario_defs zkLove_defs)
  show ?thesis
    using h registerUser_twice [OF h, of 40 41 42 empty_proof] by (simp add: state_after_def)
qed

section \<open>Matching\<close>

text \<open>
  C7: \<open>recordMutualMatch\<close>, called by the owner while the contract is not paused, fails when
  the two users are the same, fails with \<open>Both users must be active\<close> unless both profiles are
  active, and fails with \<open>Invalid compatibility score\<close> unless the score is at most 100 (a
  \<open>uint256\<close> is never below 0). The checks run in this order, so each message is the one
  reported when the checks before it pass, and the call fails whenever any of the three
  conditions is violated. On success each of the two users has \<open>totalMatches\<close> one higher and
  \<open>auraPoints\<close> higher by \<open>MATCH_AURA\<close>, as numbers and without wrap-around, and the
  contract-wide match counter is one higher.
\<close>

theorem recordMutualMatch_checks_and_effects:
  assumes "sender = owner s" and "\<not> contractPaused s"
  shows "(a = b \<longrightarrow> recordMutualMatch keccak s sender now a b score matchProof
                      = Inl (Revert ''Cannot match with self''))
    \<and> (a \<noteq> b \<and> \<not> (isActive (userProfiles s a) \<and> isActive (userProfiles s b)) \<longrightarrow>
          recordMutualMatch keccak s sender now a b score matchProof
            = Inl (Revert ''Both users must be active''))
    \<and> (a \<noteq> b \<and> isActive (userProfiles s a) \<and> isActive (userProfiles s b) \<and> \<not> score \<le> 100 \<longrightarrow>
          recordMutualMatch keccak s sender now a b score matchProof
            = Inl (Revert ''Invalid compatibility score''))
    \<and> (a = b \<or> \<not> (isActive (userProfiles s a) \<and> isActive (userProfiles s b))
          \<or> \<not> unat score \<le> 100 \<longrightarrow>
          isl (recordMutualMatch keccak s sender now a b score matchProof))
    \<and> (\<forall>s'. recordMutualMatch keccak s sender now a b score matchProof = Inr s' \<longrightarrow>
          unat (totalMatches (userProfiles s' a)) = unat (totalMatches (userProfiles s a)) + 1
        \<and> unat (totalMatches (userProfiles s' b)) = unat (totalMatches (userProfiles s b)) + 1
        \<and> unat (auraPoints (userProfiles s' a))
            = unat (auraPoints (userProfiles s a)) + unat MATCH_AURA
        \<and> unat (auraPoints (userProfiles s' b))
            = unat (auraPoints (userProfiles s b)) + unat MATCH_AURA
        \<and> unat (globalTotalMatches s') = unat (globalTotalMatches s) + 1)"
proof -
  have le: "score \<le> 100 \<longleftrightarrow> unat score \<le> 100"
    by (simp add: word_le_nat_alt)
  have fails: "a = b \<or> \<not> (isActive (userProfiles s a) \<and> isActive (userProfiles s b))
          \<or> \<not> unat score \<le> 100 \<longrightarrow>
          isl (recordMutualMatch keccak s sender now a b score matchProof)"
    using assms by (auto simp: recordMutualMatch_def le)
  have effects: "\<forall>s'. recordMutualMatch keccak s sender now a b score matchProof = Inr s' \<longrightarrow>
          unat (totalMatches (userProfiles s' a)) = unat (totalMatches (userProfiles s a)) + 1
        \<and> unat (totalMatches (userProfiles s' b)) = unat (totalMatches (userProfiles s b)) + 1
        \<and> unat (auraPoints (userProfiles s' a))
            = unat (auraPoints (userProfiles s a)) + unat MATCH_AURA
        \<and> unat (auraPoints (userProfiles s' b))
            = unat (auraPoints (userProfiles s b)) + unat MATCH_AURA
        \<and> unat (globalTotalMatches s') = unat (globalTotalMatches s) + 1"
    using recordMutualMatch_Inr by blast
  from assms fails effects show ?thesis
    by (simp add: recordMutualMatch_def)
qed

theorem recordMutualMatch_checks_and_effects_witness:
  "(1::address) = owner st_registered \<and> \<not> contractPaused st_registered
   \<and> recordMutualMatch toy_keccak st_registered 1 1000 2 2 90 empty_proof
       = Inl (Revert ''Cannot match with self'')
   \<and> recordMutualMatch toy_keccak st_registered 1 1000 2 4 90 empty_proof
       = Inl (Revert ''Both users must be active'')
   \<and> recordMutualMatch toy_keccak st_registered 1 1000 2 3 101 empty_proof
       = Inl (Revert ''Invalid compatibility score'')
   \<and> recordMutualMatch toy_keccak st_registered 1 1000 2 3 90 empty_proof
       = Inr (st_matched toy_keccak)
   \<and> unat (totalMatches (userProfiles (st_matched toy_keccak) 2)) = 1
   \<and> unat (totalMatches (userProfiles (st_matched toy_keccak) 3)) = 1
   \<and> unat (auraPoints (userProfiles (st_matched toy_keccak) 2)) = 175
   \<and> unat (auraPoints (userProfiles (st_matched toy_keccak) 3)) = 175
   \<and> unat (globalTotalMatches (st_matched toy_keccak)) = 1"
proof -
  have o: "(1::address) = owner st_registered" and p: "\<not> contractPaused st_registered"
    by (simp_all add: st_registered_facts)
  have r: "recordMutualMatch toy_keccak st_registered 1 1000 2 3 90 empty_proof
       = Inr (st_matched toy_keccak)"
    by (simp add: scenario_defs zkLove_defs)
  show ?thesis
    using o p r st_registered_facts
      recordMutualMatch_checks_and_effects [OF o p, of 2 2 toy_keccak 1000 90 empty_proof]
      recordMutualMatch_checks_and_effects [OF o p, of 2 4 toy_keccak 1000 90 empty_proof]
      recordMutualMatch_checks_and_effects [OF o p, of 2 3 toy_keccak 1000 101 empty_proof]
      recordMutualMatch_checks_and_effects [OF o p, of 2 3 toy_keccak 1000 90 empty_proof]
    by (simp add: MATCH_AURA_def)
qed

text \<open>
  C10: \<open>submitMatchingProof\<close> does not test who owns the session already stored under a
  matching hash. When \<open>P\<close> has submitted a session under the hash \<open>c\<close> and \<open>Q\<close> is registered
  and active, a submission by \<open>Q\<close> under \<open>c\<close> succeeds and the stored session is \<open>Q\<close>'s:
  its user, threshold and timestamp replace those of \<open>P\<close>. The scenario gives a reachable
  state with two distinct such principals.
\<close>

theorem submitMatchingProof_overwrites:
  assumes "submitMatchingProof s P t1 c th1 pr1 = Inr s1"
    and "biometricCommitment (userProfiles s Q) \<noteq> 0" and "isActive (userProfiles s Q)"
  shows "matchingSessions s1 c
           = \<lparr>user = P, matchingHash = c, auraThreshold = th1, timestamp = t1,
              sessionIsActive = True\<rparr>
     \<and> (\<exists>s2. submitMatchingProof s1 Q t2 c th2 pr2 = Inr s2
           \<and> matchingSessions s2 c
               = \<lparr>user = Q, matchingHash = c, auraThreshold = th2, timestamp = t2,
                  sessionIsActive = True\<rparr>)"
  using assms
  by (auto simp: submitMatchingProof_def emit_def split: if_splits)

theorem submitMatchingProof_overwrites_witness:
  "(2::address) \<noteq> 3
   \<and> submitMatchingProof st_registered 2 100 77 50 empty_proof = Inr st_intent
   \<and> user (matchingSessions st_intent 77) = 2
   \<and> (\<exists>s2. submitMatchingProof st_intent 3 200 77 60 empty_proof = Inr s2
         \<and> matchingSessions s2 77
             = \<lparr>user = 3, matchingHash = 77, auraThreshold = 60, timestamp = 200,
                sessionIsActive = True\<rparr>)"
proof -
  have h: "submitMatchingProof st_registered 2 100 77 50 empty_proof = Inr st_intent"
    by (simp add: st_intent_def scenario_defs zkLove_defs submitMatchingProof_def)
  have q: "biometricCommitment (userProfiles st_registered 3) \<noteq> 0"
    "isActive (userProfiles st_registered 3)"
    by (simp_all add: st_registered_facts)
  show ?thesis
    using h submitMatchingProof_overwrites [OF h q, of 200 60 empty_proof] by simp
qed

section \<open>Aura deduction\<close>

text \<open>
  C8: for a registered user, a \<open>deductAura\<close> call by the owner while the contract is not
  paused succeeds and subtracts the minimum of the points and the current balance, so a
  deduction of more than the balance leaves exactly zero; over any sequence of such calls
  the balance, read as a number, is the result of these floored subtractions and never
  wraps around below zero.
\<close>

theorem deductAura_floor:
  assumes "sender = owner s" and "\<not> contractPaused s"
    and "biometricCommitment (userProfiles s u) \<noteq> 0"
  shows "(\<exists>s1. deductAura s sender now u points reason = Inr s1
       \<and> auraPoints (userProfiles s1 u)
           = (if points \<le> auraPoints (userProfiles s u)
              then auraPoints (userProfiles s u) - points else 0)
       \<and> unat (auraPoints (userProfiles s1 u))
           = unat (auraPoints (userProfiles s u))
             - min (unat points) (unat (auraPoints (userProfiles s u))))
     \<and> (\<exists>s'. deductAura_all s sender u calls = Inr s'
       \<and> unat (auraPoints (userProfiles s' u))
           = foldl (\<lambda>balance (now, points, reason). balance - min (unat points) balance)
               (unat (auraPoints (userProfiles s u))) calls
       \<and> unat (auraPoints (userProfiles s' u)) \<le> unat (auraPoints (userProfiles s u)))"
proof -
  from deductAura_step [OF assms, of now points reason]
  have one: "\<exists>s1. deductAura s sender now u points reason = Inr s1
       \<and> auraPoints (userProfiles s1 u)
           = (if points \<le> auraPoints (userProfiles s u)
              then auraPoints (userProfiles s u) - points else 0)
       \<and> unat (auraPoints (userProfiles s1 u))
           = unat (auraPoints (userProfiles s u))
             - min (unat points) (unat (auraPoints (userProfiles s u)))"
    by blast
  from one deductAura_all_balance [OF assms, of calls] show ?thesis
    by blast
qed

theorem deductAura_floor_witness:
  "(1::address) = owner st_registered \<and> \<not> contractPaused st_registered
   \<and> biometricCommitment (userProfiles st_registered 2) \<noteq> 0
   \<and> unat (auraPoints (userProfiles st_registered 2)) = 100
   \<and> (\<exists>s1. deductAura st_registered 1 41 2 200 ''spam'' = Inr s1
         \<and> auraPoints (userProfiles s1 2) = 0)
   \<and> (\<exists>s'. deductAura_all st_registered 1 2
              [(40, 30, ''late''), (41, 200, ''spam''), (42, 5, ''again'')] = Inr s'
         \<and> unat (auraPoints (userProfiles s' 2)) = 0)"
proof -
  have o: "(1::address) = owner st_registered" and p: "\<not> contractPaused st_registered"
    and r: "biometricCommitment (userProfiles st_registered 2) \<noteq> 0"
    and b: "unat (auraPoints (userProfiles st_registered 2)) = 100"
    by (simp_all add: st_registered_facts)
  have w: "auraPoints (userProfiles st_registered 2) = 100"
    by (simp add: scenario_defs zkLove_defs)
  show ?thesis
    using o p r b w
      deductAura_floor [OF o p r, of 41 200 "''spam''"
        "[(40, 30, ''late''), (41, 200, ''spam''), (42, 5, ''again'')]"]
    by simp blast
qed

section \<open>The pause gate\<close>

text \<open>
  While the contract is paused, a call of \<open>deductAura\<close> by an address that is not the owner
  fails with \<open>Only owner can call this function\<close>, and a call of \<open>initiateIdentityReveal\<close>
  by an unregistered address fails with \<open>User not registered\<close>: neither reports the pause.
\<close>

theorem pause_gate_counterexample:
  "contractPaused st_paused
   \<and> deductAura st_paused 2 40 3 10 ''penalty''
       = Inl (Revert ''Only owner can call this function'')
   \<and> deductAura st_paused 2 40 3 10 ''penalty'' \<noteq> Inl (Revert ''Contract is paused'')
   \<and> initiateIdentityReveal toy_keccak st_paused 4 40 5 [] empty_proof
       = Inl (Revert ''User not registered'')
   \<and> initiateIdentityReveal toy_keccak st_paused 4 40 5 [] empty_proof
       \<noteq> Inl (Revert ''Contract is paused'')"
  by (simp add: st_paused_facts deductAura_def initiateIdentityReveal_def)

text \<open>
  C9, as amended: while the contract is paused, every call of \<open>registerUser\<close>,
  \<open>submitMatchingProof\<close>, \<open>recordMutualMatch\<close>, \<open>initiateIdentityReveal\<close>, \<open>awardBonusAura\<close>
  and \<open>deductAura\<close> fails and leaves the state unchanged. The failure is \<open>Contract is paused\<close>
  for every call of \<open>registerUser\<close>, and for the other five whenever the caller passes the
  modifiers listed before \<open>whenNotPaused\<close> (a registered and active caller for
  \<open>submitMatchingProof\<close>, a registered caller for \<open>initiateIdentityReveal\<close>, the owner for
  the other three); otherwise it is the failure of the first of those modifiers that the
  caller does not pass. The view functions return their values all the same.
\<close>

theorem pause_gate:
  assumes "contractPaused s"
  shows "registerUser s sender now commitment prefs registrationProof
           = Inl (Revert ''Contract is paused'')
    \<and> submitMatchingProof s sender now mh threshold matchingProof
        = Inl (Revert (if biometricCommitment (userProfiles s sender) = 0
                       then ''User not registered''
                       else if \<not> isActive (userProfiles s sender) then ''User not active''
                       else ''Contract is paused''))
    \<and> recordMutualMatch keccak s sender now a b score matchProof
        = Inl (Revert (if sender \<noteq> owner s then ''Only owner can call this function''
                       else ''Contract is paused''))
    \<and> initiateIdentityReveal keccak s sender now matchId revealCommitments unlockProof
        = Inl (Revert (if biometricCommitment (userProfiles s sender) = 0
                       then ''User not registered'' else ''Contract is paused''))
    \<and> awardBonusAura s sender now u points reason
        = Inl (Revert (if sender \<noteq> owner s then ''Only owner can call this function''
                       else ''Contract is paused''))
    \<and> deductAura s sender now u points reason
        = Inl (Revert (if sender \<noteq> owner s then ''Only owner can call this function''
                       else ''Contract is paused''))
    \<and> state_after s (registerUser s sender now commitment prefs registrationProof) = s
    \<and> state_after s (submitMatchingProof s sender now mh threshold matchingProof) = s
    \<and> state_after s (recordMutualMatch keccak s sender now a b score matchProof) = s
    \<and> state_after s
         (initiateIdentityReveal keccak s sender now matchId revealCommitments unlockProof) = s
    \<and> state_after s (awardBonusAura s sender now u points reason) = s
    \<and> state_after s (deductAura s sender now u points reason) = s
    \<and> getUserProfile s u = Inr (userProfiles s u)
    \<and> getMatchingSession s mh = Inr (matchingSessions s mh)
    \<and> getMutualMatch s matchId = Inr (mutualMatches s matchId)
    \<and> hasUserRevealed s a b = Inr (hasRevealed s a b)
    \<and> getContractStats s = Inr (totalUsers s, globalTotalMatches s, globalTotalReveals s)"
  using assms
  by (simp add: registerUser_def submitMatchingProof_def recordMutualMatch_def
      initiateIdentityReveal_def awardBonusAura_def deductAura_def state_after_def
      getUserProfile_def getMatchingSession_def getMutualMatch_def hasUserRevealed_def
      getContractStats_def)

theorem pause_gate_witness:
  "contractPaused st_paused
   \<and> registerUser st_paused 4 40 41 42 empty_proof = Inl (Revert ''Contract is paused'')
   \<and> submitMatchingProof st_paused 2 40 77 50 empty_proof = Inl (Revert ''Contract is paused'')
   \<and> recordMutualMatch toy_keccak st_paused 1 40 2 3 90 empty_proof
       = Inl (Revert ''Contract is paused'')
   \<and> initiateIdentityReveal toy_keccak st_paused 2 40 5 [] empty_proof
       = Inl (Revert ''Contract is paused'')
   \<and> awardBonusAura st_paused 1 40 2 10 ''bonus'' = Inl (Revert ''Contract is paused'')
   \<and> deductAura st_paused 1 40 2 10 ''penalty'' = Inl (Revert ''Contract is paused'')
   \<and> deductAura st_paused 2 40 3 10 ''penalty''
       = Inl (Revert ''Only owner can call this function'')
   \<and> state_after st_paused (deductAura st_paused 2 40 3 10 ''penalty'') = st_paused
   \<and> getUserProfile st_paused 2 = Inr (userProfiles st_paused 2)
   \<and> getContractStats st_paused = Inr (2, 0, 0)"
proof -
  have p: "contractPaused st_paused" by (rule st_paused_facts)
  show ?thesis
    using p st_paused_facts
      pause_gate [OF p, of 4 40 41 42 empty_proof]
      pause_gate [OF p, of 2 40 _ _ _ 77 50 empty_proof toy_keccak _ _ _ _ 5 "[]" empty_proof]
      pause_gate [OF p, of 1 40 _ _ _ _ _ _ toy_keccak 2 3 90 empty_proof _ _ _ 2 10 "''bonus''"]
      pause_gate [OF p, of 1 40 _ _ _ _ _ _ _ _ _ _ _ _ _ _ 2 10 "''penalty''"]
      pause_gate [OF p, of 2 40 _ _ _ _ _ _ _ _ _ _ _ _ _ _ 3 10 "''penalty''"]
      pause_gate [OF p, of _ _ _ _ _ _ _ _ _ _ _ _ _ _ _ _ 2]
    by simp
qed

end
